theory Spec2Isabelle
  imports Main "HOL-Library.Sublist"
begin

section \<open>Values shared by the two clients\<close>

text \<open>
  The repository holds two clients, \<^verbatim>\<open>src/mcp-client-openai.ts\<close> and
  \<^verbatim>\<open>src/mcp-client-claude.ts\<close>. Both talk to a tool host (an MCP server) and to an
  LLM chat API. The two remote parties are parameters of the model: every call they
  answer is a function of the number of earlier calls of the same kind in the session
  and of the request sent, so any run of the program is the run of the model under some
  environment.
\<close>

datatype json =
    JNull
  | JBool bool
  | JNum int
  | JStr string
  | JArr "json list"
  | JObj "(string \<times> json) list"

text \<open>
  A thrown JavaScript value. \<open>APIError\<close> is \<^verbatim>\<open>OpenAI.APIError\<close> (a subclass of
  \<^verbatim>\<open>Error\<close>), \<open>Error\<close> any other \<^verbatim>\<open>Error\<close> object with its message, \<open>NonError\<close> a
  thrown value that is no \<^verbatim>\<open>Error\<close>, given by its \<^verbatim>\<open>String(...)\<close> text.
\<close>

datatype thrown = APIError string | Error string | NonError string

text \<open>\<^verbatim>\<open>error instanceof Error ? error.message : String(error)\<close>\<close>

fun error_message :: "thrown \<Rightarrow> string" where
  "error_message (APIError m) = m"
| "error_message (Error m) = m"
| "error_message (NonError s) = s"

text \<open>\<^verbatim>\<open>Array.prototype.join\<close> on an array of strings.\<close>

fun join :: "string \<Rightarrow> string list \<Rightarrow> string" where
  "join sep [] = []"
| "join sep [x] = x"
| "join sep (x # y # ys) = x @ sep @ join sep (y # ys)"

definition newline :: string where
  "newline = [CHR 0x0A]"

text \<open>A tool descriptor as \<^verbatim>\<open>tools/list\<close> returns it; the description is optional.\<close>

record tool_descriptor =
  name :: string
  description :: "string option"
  inputSchema :: json

text \<open>
  The content of a \<^verbatim>\<open>tools/call\<close> result after \<^verbatim>\<open>CallToolResultSchema\<close> has
  validated it. An array holds typed items: \<open>TextContent t\<close> is the item
  \<^verbatim>\<open>{type: "text", text: t}\<close>, \<open>OtherContent j\<close> an item of any other type, given by
  its JSON value. \<open>NotArray j\<close> is a content that is not an array.
\<close>

datatype content_item = TextContent string | OtherContent json

datatype content = Items "content_item list" | NotArray json

fun item_json :: "content_item \<Rightarrow> json" where
  "item_json (TextContent t) = JObj [(''type'', JStr ''text''), (''text'', JStr t)]"
| "item_json (OtherContent j) = j"

fun content_json :: "content \<Rightarrow> json" where
  "content_json (Items xs) = JArr (map item_json xs)"
| "content_json (NotArray j) = j"

section \<open>The OpenAI client\<close>

subsection \<open>Data\<close>

record function_schema =
  fn_name :: string
  fn_description :: string
  parameters :: json

text \<open>One element of \<^verbatim>\<open>availableTools\<close>: \<^verbatim>\<open>{type: "function", function: {...}}\<close>.\<close>

record openai_tool =
  tool_type :: string
  tool_function :: function_schema

text \<open>\<^verbatim>\<open>tool.description || ""\<close>: an absent and an empty description both give \<^verbatim>\<open>""\<close>.\<close>

fun or_empty :: "string option \<Rightarrow> string" where
  "or_empty None = []"
| "or_empty (Some d) = (if d = [] then [] else d)"

definition availableTools :: "tool_descriptor list \<Rightarrow> openai_tool list" where
  "availableTools tools =
     map (\<lambda>tool. \<lparr>tool_type = ''function'',
                  tool_function = \<lparr>fn_name = name tool,
                                    fn_description = or_empty (description tool),
                                    parameters = inputSchema tool\<rparr>\<rparr>) tools"

subsection \<open>Transcript, requests and environment\<close>

text \<open>One entry of \<^verbatim>\<open>responseMessage.tool_calls\<close>.\<close>

record tool_call =
  call_id :: string
  function_name :: string
  function_arguments :: string

text \<open>\<^verbatim>\<open>choices[0].message\<close>: the text may be null, the tool calls may be absent.\<close>

record response_message =
  content :: "string option"
  tool_calls :: "tool_call list option"

datatype message =
    SystemMessage string
  | UserMessage string
  | AssistantMessage response_message
  | ToolMessage string string string
    \<comment> \<open>\<^verbatim>\<open>{role: "tool", tool_call_id, name, content}\<close>\<close>

record completion_request =
  model :: "string option"
  request_messages :: "message list"
  request_tools :: "openai_tool list"
  tool_choice :: string

text \<open>
  What both clients get from outside: whether \<^verbatim>\<open>this.client\<close> is set, the answer of
  \<^verbatim>\<open>tools/list\<close>, the answer of the \<open>n\<close>-th \<^verbatim>\<open>tools/call\<close> to its parameters (the
  object literal sent, as a list of fields), and \<^verbatim>\<open>JSON.stringify\<close>.
\<close>

record env =
  connected :: bool
  list_tools :: "thrown + tool_descriptor list"
  call_tool :: "nat \<Rightarrow> (string \<times> json) list \<Rightarrow> thrown + content"
  stringify :: "json \<Rightarrow> string"

text \<open>
  The OpenAI client also reads \<^verbatim>\<open>process.env.OPENAI_MODEL\<close>, calls
  \<^verbatim>\<open>chat.completions.create\<close> (the \<open>n\<close>-th call answers with the messages of its
  \<^verbatim>\<open>choices\<close>, or throws) and \<^verbatim>\<open>JSON.parse\<close>.
\<close>

record openai_env = env +
  OPENAI_MODEL :: "string option"
  create :: "nat \<Rightarrow> completion_request \<Rightarrow> thrown + response_message list"
  parse :: "string \<Rightarrow> thrown + json"

text \<open>
  The local variables \<^verbatim>\<open>messages\<close> and \<^verbatim>\<open>finalText\<close>, and the log of what was sent
  out: every request to the chat API and the parameters of every \<^verbatim>\<open>tools/call\<close>.
\<close>

record openai_state =
  messages :: "message list"
  finalText :: "string list"
  sent :: "completion_request list"
  called :: "(string \<times> json) list list"

subsection \<open>processQuery\<close>

text \<open>\<^verbatim>\<open>if (m.content)\<close>: null and the empty string are falsy.\<close>

fun truthy :: "string option \<Rightarrow> bool" where
  "truthy None = False"
| "truthy (Some s) = (s \<noteq> [])"

text \<open>The tool calls of a message; none when the field is absent.\<close>

fun requests :: "response_message \<Rightarrow> tool_call list" where
  "requests m = (case tool_calls m of None \<Rightarrow> [] | Some tcs \<Rightarrow> tcs)"

text \<open>\<^verbatim>\<open>m.tool_calls && m.tool_calls.length > 0\<close>\<close>

definition has_tool_calls :: "response_message \<Rightarrow> bool" where
  "has_tool_calls m = (requests m \<noteq> [])"

definition push_text :: "string \<Rightarrow> openai_state \<Rightarrow> openai_state" where
  "push_text t s = s\<lparr>finalText := finalText s @ [t]\<rparr>"

text \<open>\<^verbatim>\<open>if (m.content) finalText.push(m.content)\<close>\<close>

definition push_content :: "response_message \<Rightarrow> openai_state \<Rightarrow> openai_state" where
  "push_content m s = (if truthy (content m) then push_text (the (content m)) s else s)"

text \<open>The \<^verbatim>\<open>TypeError\<close> of \<^verbatim>\<open>choices[0].message\<close> when \<^verbatim>\<open>choices\<close> is empty.\<close>

definition no_choice :: thrown where
  "no_choice = Error (''Cannot read properties of undefined (reading '' @ [CHR 0x27] @
                       ''message'' @ [CHR 0x27] @ '')'')"

text \<open>The request of lines 114-119 and 174-179, for the transcript as it is then.\<close>

definition completion_request ::
  "openai_env \<Rightarrow> openai_tool list \<Rightarrow> message list \<Rightarrow> completion_request" where
  "completion_request E ts ms =
     \<lparr>model = OPENAI_MODEL E, request_messages = ms, request_tools = ts,
      tool_choice = ''auto''\<rparr>"

text \<open>\<^verbatim>\<open>(await this.openai.chat.completions.create({...})).choices[0].message\<close>\<close>

definition complete ::
  "openai_env \<Rightarrow> openai_tool list \<Rightarrow> openai_state \<Rightarrow>
     (thrown \<times> openai_state) + (response_message \<times> openai_state)" where
  "complete E ts s =
     (let req = completion_request E ts (messages s);
          s' = s\<lparr>sent := sent s @ [req]\<rparr>
      in case create E (length (sent s)) req of
           Inl e \<Rightarrow> Inl (e, s')
         | Inr [] \<Rightarrow> Inl (no_choice, s')
         | Inr (m # _) \<Rightarrow> Inr (m, s'))"

text \<open>Lines 155-163: the text of the tool message.\<close>

fun text_items :: "content_item list \<Rightarrow> string list" where
  "text_items [] = []"
| "text_items (TextContent t # xs) = t # text_items xs"
| "text_items (OtherContent j # xs) = text_items xs"

fun toolResultText :: "(json \<Rightarrow> string) \<Rightarrow> content \<Rightarrow> string" where
  "toolResultText str (Items xs) = join newline (text_items xs)"
| "toolResultText str (NotArray j) = str j"

text \<open>The \<^verbatim>\<open>params\<close> of the \<^verbatim>\<open>tools/call\<close> request (lines 146-149).\<close>

definition call_params :: "string \<Rightarrow> json \<Rightarrow> (string \<times> json) list" where
  "call_params toolName toolArgs = [(''name'', JStr toolName), (''arguments'', toolArgs)]"

text \<open>The message of lines 166-171.\<close>

definition tool_message :: "openai_env \<Rightarrow> tool_call \<Rightarrow> content \<Rightarrow> message" where
  "tool_message E toolCall c =
     ToolMessage (call_id toolCall) (function_name toolCall) (toolResultText (stringify E) c)"

text \<open>The lines pushed to \<^verbatim>\<open>finalText\<close> at lines 138, 190 and 197.\<close>

definition calling_notice :: "openai_env \<Rightarrow> tool_call \<Rightarrow> json \<Rightarrow> string" where
  "calling_notice E toolCall toolArgs =
     ''[Calling tool '' @ function_name toolCall @ '' with args '' @
       stringify E toolArgs @ '']''"

definition additional_notice :: string where
  "additional_notice = ''[Additional tool calls detected]''"

definition error_notice :: "thrown \<Rightarrow> string" where
  "error_notice error = ''[Error calling tool: '' @ error_message error @ '']''"

text \<open>
  The body of the inner \<^verbatim>\<open>try\<close> (lines 142-194): the tool call, the tool message, the
  next call of the chat API and what it adds to \<^verbatim>\<open>finalText\<close>. The next message is
  not pushed to \<^verbatim>\<open>messages\<close> and its tool calls are not executed. \<open>Inl\<close> is a throw,
  with the state at that moment.
\<close>

definition call_and_follow_up ::
  "openai_env \<Rightarrow> openai_tool list \<Rightarrow> tool_call \<Rightarrow> json \<Rightarrow> openai_state \<Rightarrow>
     (thrown \<times> openai_state) + openai_state" where
  "call_and_follow_up E ts toolCall toolArgs s =
     (let params = call_params (function_name toolCall) toolArgs;
          s1 = s\<lparr>called := called s @ [params]\<rparr>
      in case call_tool E (length (called s)) params of
           Inl e \<Rightarrow> Inl (e, s1)
         | Inr result \<Rightarrow>
             (let s2 = s1\<lparr>messages := messages s1 @ [tool_message E toolCall result]\<rparr>
              in case complete E ts s2 of
                   Inl x \<Rightarrow> Inl x
                 | Inr (nextMessage, s3) \<Rightarrow>
                     (let s4 = push_content nextMessage s3
                      in Inr (if has_tool_calls nextMessage
                              then push_text additional_notice s4 else s4))))"

text \<open>
  One pass of the \<^verbatim>\<open>for\<close> loop (lines 135-199). \<^verbatim>\<open>JSON.parse\<close> is outside the inner
  \<^verbatim>\<open>try\<close>, so its throw leaves the loop; a throw of the inner \<^verbatim>\<open>try\<close> is caught and
  becomes a line of \<^verbatim>\<open>finalText\<close>.
\<close>

definition execute_tool_call ::
  "openai_env \<Rightarrow> openai_tool list \<Rightarrow> tool_call \<Rightarrow> openai_state \<Rightarrow>
     (thrown \<times> openai_state) + openai_state" where
  "execute_tool_call E ts toolCall s =
     (case parse E (function_arguments toolCall) of
        Inl e \<Rightarrow> Inl (e, s)
      | Inr toolArgs \<Rightarrow>
          (case call_and_follow_up E ts toolCall toolArgs
                  (push_text (calling_notice E toolCall toolArgs) s) of
             Inl (error, s') \<Rightarrow> Inr (push_text (error_notice error) s')
           | Inr s' \<Rightarrow> Inr s'))"

fun tool_calls_loop ::
  "openai_env \<Rightarrow> openai_tool list \<Rightarrow> tool_call list \<Rightarrow> openai_state \<Rightarrow>
     (thrown \<times> openai_state) + openai_state" where
  "tool_calls_loop E ts [] s = Inr s"
| "tool_calls_loop E ts (toolCall # rest) s =
     (case execute_tool_call E ts toolCall s of
        Inl x \<Rightarrow> Inl x
      | Inr s' \<Rightarrow> tool_calls_loop E ts rest s')"

text \<open>The body of the outer \<^verbatim>\<open>try\<close> (lines 112-201).\<close>

definition try_block ::
  "openai_env \<Rightarrow> openai_tool list \<Rightarrow> openai_state \<Rightarrow>
     (thrown \<times> openai_state) + openai_state" where
  "try_block E ts s0 =
     (case complete E ts s0 of
        Inl x \<Rightarrow> Inl x
      | Inr (responseMessage, s1) \<Rightarrow>
          (let s2 = s1\<lparr>messages := messages s1 @ [AssistantMessage responseMessage]\<rparr>;
               s3 = push_content responseMessage s2
           in if has_tool_calls responseMessage
              then tool_calls_loop E ts (requests responseMessage) s3
              else Inr s3))"

text \<open>The outer \<^verbatim>\<open>catch\<close> (lines 203-212).\<close>

fun error_string :: "thrown \<Rightarrow> string" where
  "error_string (APIError m) = ''Error: '' @ m"
| "error_string e = ''Unexpected error occurred: '' @ error_message e"

definition initial_state :: "string \<Rightarrow> openai_state" where
  "initial_state query =
     \<lparr>messages = [SystemMessage ''You are a helpful assistant that can use tools.'',
                  UserMessage query],
      finalText = [], sent = [], called = []\<rparr>"

text \<open>
  \<^verbatim>\<open>processQuery\<close>: \<open>Inl\<close> is a rejected promise, \<open>Inr\<close> the string returned. The
  second component is the state at the end, with the log of the session.
\<close>

definition processQuery :: "openai_env \<Rightarrow> string \<Rightarrow> (thrown + string) \<times> openai_state" where
  "processQuery E query =
     (let s0 = initial_state query
      in if \<not> connected E then (Inl (Error ''Client not connected''), s0\<lparr>messages := []\<rparr>)
         else case list_tools E of
                Inl e \<Rightarrow> (Inl e, s0)
              | Inr toolsResponse \<Rightarrow>
                  (case try_block E (availableTools toolsResponse) s0 of
                     Inl (error, s) \<Rightarrow> (Inr (error_string error), s)
                   | Inr s \<Rightarrow> (Inr (join newline (finalText s)), s)))"

section \<open>The Claude client\<close>

subsection \<open>Data\<close>

record claude_tool =
  ct_name :: string
  ct_description :: "string option"
  input_schema :: json

definition formatTools :: "tool_descriptor list \<Rightarrow> claude_tool list" where
  "formatTools tools =
     map (\<lambda>tool. \<lparr>ct_name = name tool,
                  ct_description = description tool,
                  input_schema = inputSchema tool\<rparr>) tools"

text \<open>
  A block of \<^verbatim>\<open>response.content\<close>: text, a tool use (id, name, input), or a block of
  another type, given by its JSON value.
\<close>

datatype content_block =
    TextBlock string
  | ToolUseBlock string string json
  | OtherBlock json

datatype claude_message =
    UserText string
  | AssistantContent "content_block list"
  | ToolResultMessage string string
    \<comment> \<open>\<^verbatim>\<open>{role: "user", content: [{type: "tool_result", tool_use_id, content: [{type: "text", text}]}]}\<close>\<close>

record messages_request =
  cm_model :: "string option"
  max_tokens :: nat
  cm_messages :: "claude_message list"
  cm_tools :: "claude_tool list"

record claude_env = env +
  ANTHROPIC_MODEL :: "string option"
  messages_create :: "nat \<Rightarrow> messages_request \<Rightarrow> thrown + content_block list"

text \<open>
  The local variables \<^verbatim>\<open>messages\<close>, \<^verbatim>\<open>textResponses\<close> and \<^verbatim>\<open>response\<close> (its
  content), and the log of what was sent out.
\<close>

record claude_state =
  c_messages :: "claude_message list"
  textResponses :: "string list"
  response :: "content_block list"
  c_sent :: "messages_request list"
  c_called :: "(string \<times> json) list list"

subsection \<open>processQuery\<close>

definition push_response :: "string \<Rightarrow> claude_state \<Rightarrow> claude_state" where
  "push_response t s = s\<lparr>textResponses := textResponses s @ [t]\<rparr>"

text \<open>\<^verbatim>\<open>if (response.content[0]?.type === "text") textResponses.push(...)\<close>\<close>

fun first_text :: "content_block list \<Rightarrow> string list" where
  "first_text (TextBlock t # _) = [t]"
| "first_text _ = []"

definition push_first_text :: "content_block list \<Rightarrow> claude_state \<Rightarrow> claude_state" where
  "push_first_text r s = s\<lparr>textResponses := textResponses s @ first_text r\<rparr>"

text \<open>
  The branch for a tool use (lines 73-99): the tool call, the two messages, the next call
  of the chat API. The assistant message pushed holds the content of the variable
  \<^verbatim>\<open>response\<close> as it is at that moment. Nothing is caught: \<open>Inl\<close> is a throw.
\<close>

definition claude_params :: "string \<Rightarrow> json \<Rightarrow> (string \<times> json) list" where
  "claude_params tname tinput = [(''name'', JStr tname), (''args'', tinput)]"

definition follow_up_model :: string where
  "follow_up_model = ''claude-3-5-sonnet-20241022''"

text \<open>The request of lines 88-93, with its fixed model.\<close>

definition follow_up_request :: "claude_tool list \<Rightarrow> claude_message list \<Rightarrow> messages_request" where
  "follow_up_request ts ms =
     \<lparr>cm_model = Some follow_up_model, max_tokens = 1000, cm_messages = ms, cm_tools = ts\<rparr>"

text \<open>The message of lines 79-86.\<close>

definition tool_result :: "claude_env \<Rightarrow> string \<Rightarrow> content \<Rightarrow> claude_message" where
  "tool_result E tid c = ToolResultMessage tid (stringify E (content_json c))"

definition tool_use ::
  "claude_env \<Rightarrow> claude_tool list \<Rightarrow> string \<Rightarrow> string \<Rightarrow> json \<Rightarrow> claude_state \<Rightarrow>
     (thrown \<times> claude_state) + claude_state" where
  "tool_use E ts tid tname tinput s =
     (let params = claude_params tname tinput;
          s1 = s\<lparr>c_called := c_called s @ [params]\<rparr>
      in case call_tool E (length (c_called s)) params of
           Inl e \<Rightarrow> Inl (e, s1)
         | Inr toolResult \<Rightarrow>
             (let s2 = s1\<lparr>c_messages := c_messages s1 @
                         [AssistantContent (response s1), tool_result E tid toolResult]\<rparr>;
                  req = follow_up_request ts (c_messages s2);
                  s3 = s2\<lparr>c_sent := c_sent s2 @ [req]\<rparr>
              in case messages_create E (length (c_sent s2)) req of
                   Inl e \<Rightarrow> Inl (e, s3)
                 | Inr r \<Rightarrow> Inr (push_first_text r (s3\<lparr>response := r\<rparr>))))"

text \<open>
  The \<^verbatim>\<open>for\<close> loop of lines 69-101. It runs over the content of the response it was
  started on: assigning \<^verbatim>\<open>response\<close> in the body does not change the array being
  iterated, and \<^verbatim>\<open>continue\<close> goes to the next block of that array.
\<close>

fun for_content ::
  "claude_env \<Rightarrow> claude_tool list \<Rightarrow> content_block list \<Rightarrow> claude_state \<Rightarrow>
     (thrown \<times> claude_state) + claude_state" where
  "for_content E ts [] s = Inr s"
| "for_content E ts (TextBlock t # rest) s = for_content E ts rest (push_response t s)"
| "for_content E ts (ToolUseBlock tid tname tinput # rest) s =
     (case tool_use E ts tid tname tinput s of
        Inl x \<Rightarrow> Inl x
      | Inr s' \<Rightarrow> for_content E ts rest s')"
| "for_content E ts (OtherBlock j # rest) s = for_content E ts rest s"

text \<open>
  \<^verbatim>\<open>processQuery\<close> of the Claude client. The \<^verbatim>\<open>while (true)\<close> body is the \<^verbatim>\<open>for\<close>
  loop followed by \<^verbatim>\<open>break\<close>, so it runs once. Nothing is caught: \<open>Inl\<close> is a
  rejected promise.
\<close>

definition first_request :: "claude_env \<Rightarrow> claude_tool list \<Rightarrow> string \<Rightarrow> messages_request" where
  "first_request E ts query =
     \<lparr>cm_model = ANTHROPIC_MODEL E, max_tokens = 1000,
      cm_messages = [UserText query], cm_tools = ts\<rparr>"

definition claude_initial :: "string \<Rightarrow> claude_state" where
  "claude_initial query =
     \<lparr>c_messages = [UserText query], textResponses = [], response = [],
      c_sent = [], c_called = []\<rparr>"

definition claude_processQuery ::
  "claude_env \<Rightarrow> string \<Rightarrow> (thrown + string) \<times> claude_state" where
  "claude_processQuery E query =
     (let s0 = claude_initial query
      in if \<not> connected E then (Inl (Error ''Client not connected''), s0\<lparr>c_messages := []\<rparr>)
         else case list_tools E of
                Inl e \<Rightarrow> (Inl e, s0\<lparr>c_messages := []\<rparr>)
              | Inr toolsResponse \<Rightarrow>
                  (let formattedTools = formatTools toolsResponse;
                       req = first_request E formattedTools query;
                       s1 = s0\<lparr>c_sent := [req]\<rparr>
                   in case messages_create E 0 req of
                        Inl e \<Rightarrow> (Inl e, s1)
                      | Inr r \<Rightarrow>
                          (case for_content E formattedTools r (s1\<lparr>response := r\<rparr>) of
                             Inl (e, s) \<Rightarrow> (Inl e, s)
                           | Inr s \<Rightarrow> (Inr (join newline (textResponses s)), s))))"

section \<open>What the specification asks of a transcript\<close>





text \<open>The text of the blocks of a response of the Claude API.\<close>

fun block_texts :: "content_block list \<Rightarrow> string list" where
  "block_texts [] = []"
| "block_texts (TextBlock t # bs) = t # block_texts bs"
| "block_texts (_ # bs) = block_texts bs"

fun is_tool_use :: "content_block \<Rightarrow> bool" where
  "is_tool_use (ToolUseBlock tid tname tinput) = True"
| "is_tool_use _ = False"

text \<open>The text of a message of the OpenAI API, as a list of at most one line.\<close>

definition message_text :: "response_message \<Rightarrow> string list" where
  "message_text m = (if truthy (content m) then [the (content m)] else [])"

text \<open>
  The answers the chat API gave to the requests of a session, the first of them being
  call number \<open>n\<close>, and the texts of the assistant turns among them.
\<close>

fun replies ::
  "openai_env \<Rightarrow> nat \<Rightarrow> completion_request list \<Rightarrow> (thrown + response_message list) list" where
  "replies E n [] = []"
| "replies E n (r # rs) = create E n r # replies E (Suc n) rs"

fun reply_text :: "thrown + response_message list \<Rightarrow> string list" where
  "reply_text (Inr (m # ms)) = message_text m"
| "reply_text _ = []"

definition assistant_texts :: "openai_env \<Rightarrow> nat \<Rightarrow> completion_request list \<Rightarrow> string list" where
  "assistant_texts E n rs = concat (map reply_text (replies E n rs))"

text \<open>The lines of the answer of the OpenAI client that are no assistant text.\<close>

definition is_notice :: "string \<Rightarrow> bool" where
  "is_notice x = (prefix ''[Calling tool '' x \<or> prefix ''[Error calling tool: '' x \<or>
                  x = additional_notice)"


text \<open>The state a computation ends in, thrown or not.\<close>

fun final_state :: "(thrown \<times> 's) + 's \<Rightarrow> 's" where
  "final_state (Inl (e, s)) = s"
| "final_state (Inr s) = s"

section \<open>Example sessions\<close>

text \<open>
  \<^verbatim>\<open>JSON.stringify\<close> on the values of type \<open>json\<close> (numbers are integers of less than
  22 digits).
\<close>

fun digits :: "nat \<Rightarrow> string" where
  "digits n =
     (if n < 10 then [char_of (48 + n)] else digits (n div 10) @ [char_of (48 + n mod 10)])"

fun hex_digit :: "nat \<Rightarrow> char" where
  "hex_digit n = (if n < 10 then char_of (48 + n) else char_of (87 + n))"

fun escape_char :: "char \<Rightarrow> string" where
  "escape_char c =
     (if c = CHR 0x22 then [CHR 0x5C, CHR 0x22]
      else if c = CHR 0x5C then [CHR 0x5C, CHR 0x5C]
      else if c = CHR 0x08 then [CHR 0x5C, CHR ''b'']
      else if c = CHR 0x0C then [CHR 0x5C, CHR ''f'']
      else if c = CHR 0x0A then [CHR 0x5C, CHR ''n'']
      else if c = CHR 0x0D then [CHR 0x5C, CHR ''r'']
      else if c = CHR 0x09 then [CHR 0x5C, CHR ''t'']
      else if (of_char c :: nat) < 32
        then [CHR 0x5C, CHR ''u'', CHR ''0'', CHR ''0'',
              hex_digit (of_char c div 16), hex_digit (of_char c mod 16)]
      else [c])"

definition quoted :: "string \<Rightarrow> string" where
  "quoted s = [CHR 0x22] @ concat (map escape_char s) @ [CHR 0x22]"

fun json_text :: "json \<Rightarrow> string" where
  "json_text JNull = ''null''"
| "json_text (JBool b) = (if b then ''true'' else ''false'')"
| "json_text (JNum i) = (if i < 0 then ''-'' @ digits (nat (- i)) else digits (nat i))"
| "json_text (JStr s) = quoted s"
| "json_text (JArr xs) = ''['' @ join '','' (map json_text xs) @ '']''"
| "json_text (JObj fs) =
     ''{'' @ join '','' (map (\<lambda>(k, v). quoted k @ '':'' @ json_text v) fs) @ ''}''"

text \<open>\<^verbatim>\<open>JSON.parse\<close> on the argument strings of the examples.\<close>

definition example_parse :: "string \<Rightarrow> thrown + json" where
  \<open>example_parse s =
     (if s = ''{"path":"/tmp"}'' then Inr (JObj [(''path'', JStr ''/tmp'')])
      else if s = ''{"path":"/etc/passwd"}'' then Inr (JObj [(''path'', JStr ''/etc/passwd'')])
      else Inl (Error ''Unexpected end of JSON input''))\<close>

definition example_tools :: "tool_descriptor list" where
  "example_tools =
     [\<lparr>name = ''list_files'', description = Some ''List a directory'',
       inputSchema = JObj [(''type'', JStr ''object'')]\<rparr>,
      \<lparr>name = ''read_file'', description = None,
       inputSchema = JObj [(''type'', JStr ''object'')]\<rparr>]"

definition two_files :: content where
  "two_files = Items [TextContent (''a.txt'' @ newline @ ''b.txt'')]"

definition tmp_path :: json where
  "tmp_path = JObj [(''path'', JStr ''/tmp'')]"

subsection \<open>OpenAI\<close>

definition plain :: "string \<Rightarrow> response_message" where
  "plain t = \<lparr>content = Some t, tool_calls = None\<rparr>"

definition read_call :: tool_call where
  \<open>read_call = \<lparr>call_id = ''call_1'', function_name = ''read_file'',
                 function_arguments = ''{"path":"/etc/passwd"}''\<rparr>\<close>

definition list_call :: tool_call where
  \<open>list_call = \<lparr>call_id = ''call_2'', function_name = ''list_files'',
                 function_arguments = ''{"path":"/tmp"}''\<rparr>\<close>

text \<open>
  A session whose chat API and tool host answer by the number of the call alone, with
  the two example tools.
\<close>

definition openai_session ::
  "(nat \<Rightarrow> thrown + response_message list) \<Rightarrow> (nat \<Rightarrow> thrown + content) \<Rightarrow> openai_env" where
  "openai_session llm host =
     \<lparr>connected = True, list_tools = Inr example_tools,
      call_tool = (\<lambda>n params. host n), stringify = json_text,
      OPENAI_MODEL = Some ''gpt-4o'', create = (\<lambda>n req. llm n), parse = example_parse\<rparr>"

text \<open>Scenario A of the specification: the answer is plain text.\<close>

definition scenario_A :: openai_env where
  "scenario_A = openai_session (\<lambda>n. Inr [plain ''4'']) (\<lambda>n. Inr (Items []))"

text \<open>Scenario B: one tool request, then plain text.\<close>

definition scenario_B :: openai_env where
  "scenario_B = openai_session
     (\<lambda>n. if n = 0 then Inr [\<lparr>content = None, tool_calls = Some [list_call]\<rparr>]
           else Inr [plain ''Found 2 files.''])
     (\<lambda>n. Inr two_files)"







subsection \<open>Claude\<close>

definition claude_session ::
  "(nat \<Rightarrow> thrown + content_block list) \<Rightarrow> (nat \<Rightarrow> thrown + content) \<Rightarrow> claude_env" where
  "claude_session llm host =
     \<lparr>connected = True, list_tools = Inr example_tools,
      call_tool = (\<lambda>n params. host n), stringify = json_text,
      ANTHROPIC_MODEL = Some ''claude-3-opus-20240229'', messages_create = (\<lambda>n req. llm n)\<rparr>"

definition claude_A :: claude_env where
  "claude_A = claude_session (\<lambda>n. Inr [TextBlock ''4'']) (\<lambda>n. Inr (Items []))"

definition claude_B :: claude_env where
  "claude_B = claude_session
     (\<lambda>n. if n = 0 then Inr [ToolUseBlock ''toolu_1'' ''list_files'' tmp_path]
           else Inr [TextBlock ''Found 2 files.''])
     (\<lambda>n. Inr two_files)"



section \<open>The OpenAI loop, step by step\<close>

text \<open>A call of the chat API throws, answers without a choice, or answers with a message.\<close>

lemma complete_cases:
  obtains (fails) e where
      "create E (length (sent s)) (completion_request E ts (messages s)) = Inl e"
      "complete E ts s = Inl (e, s\<lparr>sent := sent s @ [completion_request E ts (messages s)]\<rparr>)"
  | (empty)
      "create E (length (sent s)) (completion_request E ts (messages s)) = Inr []"
      "complete E ts s = Inl (no_choice, s\<lparr>sent := sent s @ [completion_request E ts (messages s)]\<rparr>)"
  | (answer) m ms where
      "create E (length (sent s)) (completion_request E ts (messages s)) = Inr (m # ms)"
      "complete E ts s = Inr (m, s\<lparr>sent := sent s @ [completion_request E ts (messages s)]\<rparr>)"
proof (cases "create E (length (sent s)) (completion_request E ts (messages s))")
  case (Inl e)
  then show ?thesis using fails by (simp add: complete_def Let_def)
next
  case (Inr choices)
  then show ?thesis using empty answer
    by (cases choices) (simp_all add: complete_def Let_def)
qed






lemma is_notice_simps [simp]:
  "is_notice (calling_notice E tc a)" "is_notice (error_notice e)" "is_notice additional_notice"
  by (simp_all add: is_notice_def calling_notice_def error_notice_def)


lemma assistant_texts_Nil [simp]: "assistant_texts E n [] = []"
  by (simp add: assistant_texts_def)




section \<open>A session of the OpenAI client\<close>

lemma snd_outcome [simp]:
  "snd (case R of Inl (e, s) \<Rightarrow> (f e s, s) | Inr s \<Rightarrow> (g s, s)) = final_state R"
  by (cases R) auto


lemma processQuery_cases:
  obtains
    (not_connected)
      "\<not> connected E"
      "processQuery E q = (Inl (Error ''Client not connected''), (initial_state q)\<lparr>messages := []\<rparr>)"
  | (no_tools) e where
      "connected E" "list_tools E = Inl e"
      "processQuery E q = (Inl e, initial_state q)"
  | (first_fails) ds e where
      "connected E" "list_tools E = Inr ds"
      "create E 0 (completion_request E (availableTools ds) (messages (initial_state q))) = Inl e \<or>
       create E 0 (completion_request E (availableTools ds) (messages (initial_state q))) = Inr [] \<and>
       e = no_choice"
      "try_block E (availableTools ds) (initial_state q) =
         Inl (e, (initial_state q)\<lparr>sent := [completion_request E (availableTools ds) (messages (initial_state q))]\<rparr>)"
      "processQuery E q =
         (Inr (error_string e),
          (initial_state q)\<lparr>sent := [completion_request E (availableTools ds) (messages (initial_state q))]\<rparr>)"
  | (session) ds m ms s1 where
      "connected E" "list_tools E = Inr ds"
      "create E 0 (completion_request E (availableTools ds) (messages (initial_state q))) = Inr (m # ms)"
      "messages s1 = messages (initial_state q) @ [AssistantMessage m]"
      "sent s1 = [completion_request E (availableTools ds) (messages (initial_state q))]"
      "called s1 = []"
      "finalText s1 = message_text m"
      "try_block E (availableTools ds) (initial_state q) =
         tool_calls_loop E (availableTools ds) (requests m) s1"
      "processQuery E q =
         (case tool_calls_loop E (availableTools ds) (requests m) s1 of
            Inl (e, s) \<Rightarrow> (Inr (error_string e), s)
          | Inr s \<Rightarrow> (Inr (join newline (finalText s)), s))"
proof (cases "connected E")
  case False
  then show ?thesis using not_connected by (simp add: processQuery_def)
next
  case True
  note c = this
  show ?thesis
  proof (cases "list_tools E")
    case (Inl e)
    then show ?thesis using no_tools c by (simp add: processQuery_def)
  next
    case (Inr ds)
    let ?s0 = "initial_state q"
    have pq: "processQuery E q =
        (case try_block E (availableTools ds) ?s0 of
           Inl (e, s) \<Rightarrow> (Inr (error_string e), s)
         | Inr s \<Rightarrow> (Inr (join newline (finalText s)), s))"
      using c Inr by (simp add: processQuery_def)
    have s0: "sent ?s0 = []" "called ?s0 = []" "finalText ?s0 = []"
      by (simp_all add: initial_state_def)
    show ?thesis
    proof (cases rule: complete_cases[where E=E and ts="availableTools ds" and s="?s0"])
      case (fails e)
      with pq s0 first_fails[of ds e] c Inr show ?thesis
        by (simp add: try_block_def)
    next
      case empty
      with pq s0 first_fails[of ds no_choice] c Inr show ?thesis
        by (simp add: try_block_def)
    next
      case (answer m ms)
      let ?s1 = "push_content m (?s0\<lparr>sent := sent ?s0 @
                    [completion_request E (availableTools ds) (messages ?s0)],
                  messages := messages ?s0 @ [AssistantMessage m]\<rparr>)"
      have tb: "try_block E (availableTools ds) ?s0 =
          tool_calls_loop E (availableTools ds) (requests m) ?s1"
        using answer(2) by (simp add: try_block_def Let_def has_tool_calls_def)
      show ?thesis
        using session[of ds m ms ?s1] c Inr answer(1) s0 tb pq
        by (simp add: push_content_def push_text_def message_text_def)
    qed
  qed
qed

text \<open>A first answer without tool calls ends the session.\<close>

lemma openai_plain_answer:
  assumes "connected E" "list_tools E = Inr ds"
    "create E 0 (completion_request E (availableTools ds) (messages (initial_state q))) = Inr (m # ms)"
    "\<not> has_tool_calls m"
  shows "fst (processQuery E q) = Inr (if truthy (content m) then the (content m) else [])"
    "length (sent (snd (processQuery E q))) = 1" "called (snd (processQuery E q)) = []"
proof -
  show "fst (processQuery E q) = Inr (if truthy (content m) then the (content m) else [])"
    "length (sent (snd (processQuery E q))) = 1" "called (snd (processQuery E q)) = []"
    using assms
    by (cases rule: processQuery_cases[of E q]; auto simp: has_tool_calls_def message_text_def)+
qed











section \<open>The Claude loop, step by step\<close>

text \<open>
  The branch for a tool use ends in one of three ways: the tool call fails, the next call
  of the chat API fails, or it answers.
\<close>

lemma tool_use_cases:
  obtains
    (tool_fails) e s1 where
      "call_tool E (length (c_called s)) (claude_params tname tinput) = Inl e"
      "tool_use E ts tid tname tinput s = Inl (e, s1)"
      "c_messages s1 = c_messages s"
      "c_sent s1 = c_sent s"
      "c_called s1 = c_called s @ [claude_params tname tinput]"
      "textResponses s1 = textResponses s"
  | (llm_fails) c e s1 where
      "call_tool E (length (c_called s)) (claude_params tname tinput) = Inr c"
      "messages_create E (length (c_sent s))
         (follow_up_request ts (c_messages s @ [AssistantContent (response s), tool_result E tid c])) = Inl e"
      "tool_use E ts tid tname tinput s = Inl (e, s1)"
      "c_messages s1 = c_messages s @ [AssistantContent (response s), tool_result E tid c]"
      "c_sent s1 = c_sent s @
         [follow_up_request ts (c_messages s @ [AssistantContent (response s), tool_result E tid c])]"
      "c_called s1 = c_called s @ [claude_params tname tinput]"
      "textResponses s1 = textResponses s"
  | (answered) c r s1 where
      "call_tool E (length (c_called s)) (claude_params tname tinput) = Inr c"
      "messages_create E (length (c_sent s))
         (follow_up_request ts (c_messages s @ [AssistantContent (response s), tool_result E tid c])) = Inr r"
      "tool_use E ts tid tname tinput s = Inr s1"
      "c_messages s1 = c_messages s @ [AssistantContent (response s), tool_result E tid c]"
      "c_sent s1 = c_sent s @
         [follow_up_request ts (c_messages s @ [AssistantContent (response s), tool_result E tid c])]"
      "c_called s1 = c_called s @ [claude_params tname tinput]"
      "textResponses s1 = textResponses s @ first_text r"
      "response s1 = r"
proof (cases "call_tool E (length (c_called s)) (claude_params tname tinput)")
  case (Inl e)
  let ?s1 = "s\<lparr>c_called := c_called s @ [claude_params tname tinput]\<rparr>"
  have "tool_use E ts tid tname tinput s = Inl (e, ?s1)"
    using Inl by (simp add: tool_use_def Let_def)
  then show ?thesis using tool_fails[of e ?s1] Inl by simp
next
  case (Inr c)
  let ?ms = "c_messages s @ [AssistantContent (response s), tool_result E tid c]"
  let ?s3 = "s\<lparr>c_called := c_called s @ [claude_params tname tinput], c_messages := ?ms,
               c_sent := c_sent s @ [follow_up_request ts ?ms]\<rparr>"
  show ?thesis
  proof (cases "messages_create E (length (c_sent s)) (follow_up_request ts ?ms)")
    case (Inl e)
    have "tool_use E ts tid tname tinput s = Inl (e, ?s3)"
      using Inr Inl by (simp add: tool_use_def Let_def)
    then show ?thesis using llm_fails[of c e ?s3] Inr Inl by simp
  next
    case r: (Inr r)
    let ?s' = "push_first_text r (?s3\<lparr>response := r\<rparr>)"
    have "tool_use E ts tid tname tinput s = Inr ?s'"
      using Inr r by (simp add: tool_use_def Let_def)
    then show ?thesis using answered[of c r ?s'] Inr r by (simp add: push_first_text_def)
  qed
qed

text \<open>Every request of the loop names the fixed model.\<close>

lemma for_content_model:
  "\<exists>newr. c_sent (final_state (for_content E ts blocks s)) = c_sent s @ newr \<and>
     (\<forall>r\<in>set newr. cm_model r = Some follow_up_model)"
proof (induction blocks arbitrary: s)
  case Nil
  then show ?case by simp
next
  case (Cons b blocks)
  show ?case
  proof (cases b)
    case (TextBlock t)
    with Cons.IH[of "push_response t s"] show ?thesis by (simp add: push_response_def)
  next
    case (OtherBlock j)
    with Cons.IH[of s] show ?thesis by simp
  next
    case (ToolUseBlock tid tname tinput)
    show ?thesis
    proof (cases rule: tool_use_cases[where E=E and ts=ts and tid=tid and tname=tname
          and tinput=tinput and s=s])
      case (tool_fails e s1)
      with ToolUseBlock show ?thesis by simp
    next
      case (llm_fails c e s1)
      with ToolUseBlock show ?thesis by (simp add: follow_up_request_def)
    next
      case (answered c r s1)
      from Cons.IH[of s1] obtain newr where
        "c_sent (final_state (for_content E ts blocks s1)) = c_sent s1 @ newr"
        "\<forall>r\<in>set newr. cm_model r = Some follow_up_model"
        by blast
      with ToolUseBlock answered show ?thesis by (simp add: follow_up_request_def)
    qed
  qed
qed

text \<open>A response without tool use: its texts are pushed and nothing is sent.\<close>

lemma for_content_no_tool_use:
  "\<not> list_ex is_tool_use blocks \<Longrightarrow>
   for_content E ts blocks s = Inr (s\<lparr>textResponses := textResponses s @ block_texts blocks\<rparr>)"
proof (induction blocks arbitrary: s)
  case Nil
  then show ?case by simp
next
  case (Cons b blocks)
  then show ?case by (cases b) (simp_all add: push_response_def)
qed





section \<open>A session of the Claude client\<close>

lemma claude_processQuery_cases:
  obtains
    (not_connected)
      "\<not> connected E"
      "claude_processQuery E q =
         (Inl (Error ''Client not connected''), (claude_initial q)\<lparr>c_messages := []\<rparr>)"
  | (no_tools) e where
      "connected E" "list_tools E = Inl e"
      "claude_processQuery E q = (Inl e, (claude_initial q)\<lparr>c_messages := []\<rparr>)"
  | (first_fails) ds e where
      "connected E" "list_tools E = Inr ds"
      "messages_create E 0 (first_request E (formatTools ds) q) = Inl e"
      "claude_processQuery E q =
         (Inl e, (claude_initial q)\<lparr>c_sent := [first_request E (formatTools ds) q]\<rparr>)"
  | (session) ds r s1 where
      "connected E" "list_tools E = Inr ds"
      "messages_create E 0 (first_request E (formatTools ds) q) = Inr r"
      "c_messages s1 = [UserText q]"
      "c_sent s1 = [first_request E (formatTools ds) q]"
      "c_called s1 = []"
      "textResponses s1 = []"
      "response s1 = r"
      "claude_processQuery E q =
         (case for_content E (formatTools ds) r s1 of
            Inl (e, s) \<Rightarrow> (Inl e, s)
          | Inr s \<Rightarrow> (Inr (join newline (textResponses s)), s))"
proof (cases "connected E")
  case False
  then show ?thesis using not_connected by (simp add: claude_processQuery_def)
next
  case True
  note c = this
  show ?thesis
  proof (cases "list_tools E")
    case (Inl e)
    then show ?thesis using no_tools c by (simp add: claude_processQuery_def)
  next
    case (Inr ds)
    note l = this
    show ?thesis
    proof (cases "messages_create E 0 (first_request E (formatTools ds) q)")
      case (Inl e)
      then show ?thesis using first_fails[of ds e] c l
        by (simp add: claude_processQuery_def Let_def)
    next
      case (Inr r)
      let ?s1 = "(claude_initial q)\<lparr>c_sent := [first_request E (formatTools ds) q], response := r\<rparr>"
      show ?thesis using session[of ds r ?s1] c l Inr
        by (simp add: claude_processQuery_def Let_def claude_initial_def)
    qed
  qed
qed

text \<open>A first answer without tool use ends the session.\<close>

lemma claude_plain_answer:
  assumes "connected E" "list_tools E = Inr ds"
    "messages_create E 0 (first_request E (formatTools ds) q) = Inr r"
    "\<not> list_ex is_tool_use r"
  shows "fst (claude_processQuery E q) = Inr (join newline (block_texts r)) \<and>
    length (c_sent (snd (claude_processQuery E q))) = 1 \<and>
    c_called (snd (claude_processQuery E q)) = []"
  using assms
  by (cases rule: claude_processQuery_cases[of E q])
     (auto simp: for_content_no_tool_use)

text \<open>The model named by the requests of a session.\<close>

lemma claude_models:
  assumes "i < length (c_sent (snd (claude_processQuery E q)))"
  shows "cm_model (c_sent (snd (claude_processQuery E q)) ! i) =
     (if i = 0 then ANTHROPIC_MODEL E else Some ''claude-3-5-sonnet-20241022'')"
proof (cases rule: claude_processQuery_cases[of E q])
  case (first_fails ds e)
  with assms show ?thesis by (simp add: first_request_def)
next
  case (session ds r s1)
  let ?R = "for_content E (formatTools ds) r s1"
  have snd: "snd (claude_processQuery E q) = final_state ?R"
    using session(9) by simp
  from for_content_model[of E "formatTools ds" r s1] obtain newr where
    "c_sent (final_state ?R) = c_sent s1 @ newr" "\<forall>r\<in>set newr. cm_model r = Some follow_up_model"
    by blast
  with assms snd session(5) show ?thesis
    by (cases i) (simp_all add: first_request_def follow_up_model_def)
qed (use assms in \<open>simp_all add: claude_initial_def\<close>)






section \<open>Evaluating the example sessions\<close>

lemmas openai_eval = processQuery_def try_block_def complete_def completion_request_def
  initial_state_def push_content_def push_text_def has_tool_calls_def
  execute_tool_call_def call_and_follow_up_def tool_message_def call_params_def
  openai_session_def example_tools_def example_parse_def plain_def
  read_call_def list_call_def two_files_def tmp_path_def Let_def

lemmas claude_eval = claude_processQuery_def claude_initial_def first_request_def tool_use_def
  follow_up_request_def tool_result_def claude_params_def push_response_def push_first_text_def
  claude_session_def example_tools_def two_files_def tmp_path_def Let_def

section \<open>The claims of the specification\<close>

subsection \<open>C1\<close>




subsection \<open>C2\<close>




subsection \<open>C3\<close>




subsection \<open>C4\<close>




subsection \<open>C5\<close>




subsection \<open>C6\<close>




subsection \<open>C7\<close>

text \<open>
  C7 (as amended). Both adapters keep the number and the order of the descriptors and
  pass the name and the input schema through unchanged. The OpenAI adapter puts the
  schema in the field \<open>parameters\<close> and replaces an absent description by the empty
  string; the Claude adapter \<open>formatTools\<close> puts the schema in the field
  \<open>input_schema\<close> and leaves an absent description absent.
\<close>

theorem adapters_map_fields:
  "length (availableTools ds) = length ds \<and> length (formatTools ds) = length ds \<and>
   (\<forall>i < length ds.
      tool_type (availableTools ds ! i) = ''function'' \<and>
      fn_name (tool_function (availableTools ds ! i)) = name (ds ! i) \<and>
      fn_description (tool_function (availableTools ds ! i)) =
        (case description (ds ! i) of None \<Rightarrow> [] | Some d \<Rightarrow> d) \<and>
      parameters (tool_function (availableTools ds ! i)) = inputSchema (ds ! i) \<and>
      ct_name (formatTools ds ! i) = name (ds ! i) \<and>
      ct_description (formatTools ds ! i) = description (ds ! i) \<and>
      input_schema (formatTools ds ! i) = inputSchema (ds ! i))"
  by (auto simp: availableTools_def formatTools_def split: option.splits)

theorem adapters_map_fields_witness:
  "(1::nat) < length example_tools \<and>
   fn_name (tool_function (availableTools example_tools ! 1)) = ''read_file'' \<and>
   fn_description (tool_function (availableTools example_tools ! 1)) = [] \<and>
   ct_name (formatTools example_tools ! 1) = ''read_file'' \<and>
   ct_description (formatTools example_tools ! 1) = None"
proof -
  have 1: "(1::nat) < length example_tools"
    by (simp add: example_tools_def)
  have 2: "name (example_tools ! 1) = ''read_file''" "description (example_tools ! 1) = None"
    by (simp_all add: example_tools_def)
  from adapters_map_fields[of example_tools] 1 2 show ?thesis
    by simp
qed

text \<open>
  C7 as stated fails for the Claude adapter: a descriptor without description does not
  get the empty string.
\<close>

theorem formatTools_keeps_absent_description:
  "ct_description (formatTools example_tools ! 1) \<noteq> Some []"
  by (simp add: formatTools_def example_tools_def)

subsection \<open>C8\<close>

text \<open>
  C8. When the first response of the chat API holds no tool request, the session makes
  this one call of the chat API and no tool call, and returns the text of the response:
  in the OpenAI client the content of the message (the empty string when there is none),
  in the Claude client the texts of its text blocks joined by newlines.
\<close>

theorem plain_answer_after_one_call:
  "(connected E \<and> list_tools E = Inr ds \<and>
    create E 0 (completion_request E (availableTools ds) (messages (initial_state q))) = Inr (m # ms) \<and>
    \<not> has_tool_calls m \<longrightarrow>
      fst (processQuery E q) = Inr (if truthy (content m) then the (content m) else []) \<and>
      length (sent (snd (processQuery E q))) = 1 \<and>
      called (snd (processQuery E q)) = []) \<and>
   (connected C \<and> list_tools C = Inr ds' \<and>
    messages_create C 0 (first_request C (formatTools ds') q') = Inr r \<and>
    \<not> list_ex is_tool_use r \<longrightarrow>
      fst (claude_processQuery C q') = Inr (join newline (block_texts r)) \<and>
      length (c_sent (snd (claude_processQuery C q'))) = 1 \<and>
      c_called (snd (claude_processQuery C q')) = [])"
  using openai_plain_answer[of E ds q m ms] claude_plain_answer[of C ds' q' r]
  by blast

text \<open>
  Scenario A in both clients: the answer is \<open>4\<close> after one call.
\<close>

theorem plain_answer_after_one_call_witness:
  "connected scenario_A \<and> list_tools scenario_A = Inr example_tools \<and>
   create scenario_A 0 (completion_request scenario_A (availableTools example_tools)
      (messages (initial_state ''What is 2+2?''))) = Inr [plain ''4''] \<and>
   requests (plain ''4'') = [] \<and>
   fst (processQuery scenario_A ''What is 2+2?'') = Inr ''4'' \<and>
   length (sent (snd (processQuery scenario_A ''What is 2+2?''))) = 1 \<and>
   called (snd (processQuery scenario_A ''What is 2+2?'')) = [] \<and>
   connected claude_A \<and> list_tools claude_A = Inr example_tools \<and>
   messages_create claude_A 0 (first_request claude_A (formatTools example_tools) ''What is 2+2?'') =
     Inr [TextBlock ''4''] \<and>
   fst (claude_processQuery claude_A ''What is 2+2?'') = Inr ''4'' \<and>
   length (c_sent (snd (claude_processQuery claude_A ''What is 2+2?''))) = 1 \<and>
   c_called (snd (claude_processQuery claude_A ''What is 2+2?'')) = []"
proof -
  let ?q = "''What is 2+2?''"
  have h: "connected scenario_A" "list_tools scenario_A = Inr example_tools"
    "create scenario_A 0 (completion_request scenario_A (availableTools example_tools)
      (messages (initial_state ?q))) = Inr [plain ''4'']"
    "requests (plain ''4'') = []" "\<not> has_tool_calls (plain ''4'')"
    "truthy (content (plain ''4''))" "the (content (plain ''4'')) = ''4''"
    by (simp_all add: scenario_A_def openai_session_def plain_def has_tool_calls_def)
  have h': "connected claude_A" "list_tools claude_A = Inr example_tools"
    "messages_create claude_A 0 (first_request claude_A (formatTools example_tools) ?q) =
       Inr [TextBlock ''4'']"
    "\<not> list_ex is_tool_use [TextBlock ''4'']" "join newline (block_texts [TextBlock ''4'']) = ''4''"
    by (simp_all add: claude_A_def claude_session_def)
  from plain_answer_after_one_call[of scenario_A example_tools ?q "plain ''4''" "[]" claude_A example_tools ?q "[TextBlock ''4'']"]
    h h'
  show ?thesis by simp
qed

subsection \<open>C9\<close>

text \<open>
  C9, on the example session of scenario B. The Claude client sends the input of the tool
  use under the key \<open>args\<close>: the parameters of its \<^verbatim>\<open>tools/call\<close> request have no field
  \<open>arguments\<close>. The OpenAI client sends the parsed arguments under \<open>arguments\<close>.
\<close>

theorem claude_call_params_use_args:
  "c_called (snd (claude_processQuery claude_B ''List files in /tmp'')) =
     [[(''name'', JStr ''list_files''), (''args'', JObj [(''path'', JStr ''/tmp'')])]] \<and>
   map_of (hd (c_called (snd (claude_processQuery claude_B ''List files in /tmp'')))) ''arguments'' = None \<and>
   called (snd (processQuery scenario_B ''List files in /tmp'')) =
     [[(''name'', JStr ''list_files''), (''arguments'', JObj [(''path'', JStr ''/tmp'')])]]"
  by (simp add: claude_B_def claude_eval scenario_B_def openai_eval)

subsection \<open>C10\<close>

text \<open>
  C10. In the Claude client the first request of a session names the model of
  \<^verbatim>\<open>ANTHROPIC_MODEL\<close>, and every later request names the model
  \<open>claude-3-5-sonnet-20241022\<close>, whatever the configuration says.
\<close>

theorem claude_follow_up_model_fixed:
  "i < length (c_sent (snd (claude_processQuery E q))) \<Longrightarrow>
   cm_model (c_sent (snd (claude_processQuery E q)) ! i) =
     (if i = 0 then ANTHROPIC_MODEL E else Some ''claude-3-5-sonnet-20241022'')"
  by (rule claude_models)

text \<open>
  Scenario B, configured with another model.
\<close>

theorem claude_follow_up_model_fixed_witness:
  "1 < length (c_sent (snd (claude_processQuery claude_B ''List files in /tmp''))) \<and>
   ANTHROPIC_MODEL claude_B = Some ''claude-3-opus-20240229'' \<and>
   cm_model (c_sent (snd (claude_processQuery claude_B ''List files in /tmp'')) ! 0) =
     Some ''claude-3-opus-20240229'' \<and>
   cm_model (c_sent (snd (claude_processQuery claude_B ''List files in /tmp'')) ! 1) =
     Some ''claude-3-5-sonnet-20241022''"
proof -
  let ?q = "''List files in /tmp''"
  have l: "1 < length (c_sent (snd (claude_processQuery claude_B ?q)))"
    by (simp add: claude_B_def claude_eval)
  then have l0: "0 < length (c_sent (snd (claude_processQuery claude_B ?q)))"
    by linarith
  have m: "ANTHROPIC_MODEL claude_B = Some ''claude-3-opus-20240229''"
    by (simp add: claude_B_def claude_session_def)
  from claude_follow_up_model_fixed[OF l] claude_follow_up_model_fixed[OF l0] l m show ?thesis by simp
qed

end
